theory Spec2Isabelle
  imports Complex_Main
begin

section \<open>Common string helpers\<close>

text \<open>
  Python strings are modelled as \<^typ>\<open>string\<close> (lists of 8-bit characters); the
  character classes below are the ASCII parts of Python's \<^verbatim>\<open>str.lower\<close>,
  \<^verbatim>\<open>str.strip\<close>, \<^verbatim>\<open>\s\<close>, \<^verbatim>\<open>\w\<close> and \<^verbatim>\<open>\d\<close>.
\<close>

definition lower_char :: "char \<Rightarrow> char" where
  "lower_char c =
     (let n = (of_char c :: nat) in if 65 \<le> n \<and> n \<le> 90 then char_of (n + 32) else c)"

definition lower :: "string \<Rightarrow> string" where
  "lower s = map lower_char s"

fun startswith :: "string \<Rightarrow> string \<Rightarrow> bool" where
  "startswith s [] = True"
| "startswith [] (p # ps) = False"
| "startswith (c # cs) (p # ps) = (c = p \<and> startswith cs ps)"

text \<open>\<^verbatim>\<open>sub in s\<close> for strings.\<close>

fun contains :: "string \<Rightarrow> string \<Rightarrow> bool" where
  "contains sub [] = (sub = [])"
| "contains sub (c # cs) = (startswith (c # cs) sub \<or> contains sub cs)"


text \<open>\<^verbatim>\<open>d.get(key, default)\<close> on an optional field.\<close>

definition get_or :: "'a option \<Rightarrow> 'a \<Rightarrow> 'a" where
  "get_or v d = (case v of None \<Rightarrow> d | Some x \<Rightarrow> x)"

definition is_space :: "char \<Rightarrow> bool" where
  "is_space c = (let n = (of_char c :: nat) in (9 \<le> n \<and> n \<le> 13) \<or> (28 \<le> n \<and> n \<le> 32))"

definition is_digit :: "char \<Rightarrow> bool" where
  "is_digit c = (let n = (of_char c :: nat) in 48 \<le> n \<and> n \<le> 57)"



definition strip :: "string \<Rightarrow> string" where
  "strip s = rev (dropWhile is_space (rev (dropWhile is_space s)))"

text \<open>
  \<^verbatim>\<open>s.split(sep)\<close> and \<^verbatim>\<open>s.replace(old, new)\<close> for a non-empty separator: the
  text is scanned from the left, occurrences do not overlap. The counter \<open>skip\<close> is
  the number of characters of the occurrence just found that are still to be skipped.
\<close>

fun split_go :: "string \<Rightarrow> nat \<Rightarrow> string \<Rightarrow> string \<Rightarrow> string list" where
  "split_go sep skip acc [] = [rev acc]"
| "split_go sep skip acc (c # cs) =
     (if 0 < skip then split_go sep (skip - 1) acc cs
      else if startswith (c # cs) sep then rev acc # split_go sep (length sep - 1) [] cs
      else split_go sep 0 (c # acc) cs)"

definition split :: "string \<Rightarrow> string \<Rightarrow> string list" where
  "split sep s = split_go sep 0 [] s"



text \<open>Decimal formatting: \<^verbatim>\<open>f"{n}"\<close> and \<^verbatim>\<open>f"{n:03d}"\<close>, \<^verbatim>\<open>%H\<close>, \<^verbatim>\<open>%Y\<close>.\<close>

definition digit_char :: "nat \<Rightarrow> char" where
  "digit_char d = char_of (48 + d)"

fun dec :: "nat \<Rightarrow> string" where
  "dec n = (if n < 10 then [digit_char n] else dec (n div 10) @ [digit_char (n mod 10)])"

definition zero_pad :: "nat \<Rightarrow> nat \<Rightarrow> string" where
  "zero_pad w n = replicate (w - length (dec n)) (CHR ''0'') @ dec n"

text \<open>
  \<^verbatim>\<open>round(x, n)\<close> on exact rationals: to the nearest multiple of \<open>10\<^sup>-\<^sup>n\<close>, a tie
  going to the even neighbour.
\<close>

definition round_half_even :: "rat \<Rightarrow> int" where
  "round_half_even x =
     (let f = \<lfloor>x\<rfloor>; d = x - of_int f
      in if d < 1 / 2 then f else if 1 / 2 < d then f + 1 else if even f then f else f + 1)"

definition py_round :: "rat \<Rightarrow> nat \<Rightarrow> rat" where
  "py_round x n = of_int (round_half_even (x * 10 ^ n)) / 10 ^ n"

datatype py_error = KeyError string | TypeError | AttributeError | ValueError string
  | JSONDecodeError | FileNotFoundError string | OtherError string

section \<open>JSON values\<close>

text \<open>
  The values \<^verbatim>\<open>json.loads\<close> returns: a dictionary is an association list in
  insertion order. Numbers are exact rationals.
\<close>

datatype json = JNull | JBool bool | JNum rat | JStr string | JArr "json list"
  | JObj "(string \<times> json) list"

text \<open>Python truthiness (\<^verbatim>\<open>if not x\<close>) and \<^verbatim>\<open>isinstance\<close>.\<close>

fun truthy :: "json \<Rightarrow> bool" where
  "truthy JNull = False"
| "truthy (JBool b) = b"
| "truthy (JNum x) = (x \<noteq> 0)"
| "truthy (JStr s) = (s \<noteq> [])"
| "truthy (JArr xs) = (xs \<noteq> [])"
| "truthy (JObj kvs) = (kvs \<noteq> [])"




subsection \<open>A parser for a subset of JSON\<close>

text \<open>
  \<^verbatim>\<open>json.loads\<close> is a library function; the functions below take it as a parameter
  \<open>loads\<close>, where \<open>None\<close> is \<^verbatim>\<open>JSONDecodeError\<close>. For concrete inputs the parameter
  is instantiated by \<open>json_loads\<close>, a parser for the JSON texts built from objects,
  arrays, strings without escapes, integers and the three literals. On a text it accepts
  it returns the value \<^verbatim>\<open>json.loads\<close> returns. The fuel bounds the nesting depth
  and the number of elements by the length of the text.
\<close>

definition is_json_space :: "char \<Rightarrow> bool" where
  "is_json_space c = (c = CHR '' '' \<or> c = CHR 0x09 \<or> c = CHR 0x0A \<or> c = CHR 0x0D)"

definition skip_ws :: "string \<Rightarrow> string" where
  "skip_ws s = dropWhile is_json_space s"

definition digit_value :: "char \<Rightarrow> int" where
  "digit_value c = int (of_char c) - 48"

definition parse_string :: "string \<Rightarrow> (string \<times> string) option" where
  "parse_string s =
     (let body = takeWhile (\<lambda>c. c \<noteq> CHR 0x22) s; rest = dropWhile (\<lambda>c. c \<noteq> CHR 0x22) s
      in if rest = [] \<or> list_ex (\<lambda>c. c = CHR 0x5C \<or> (of_char c :: nat) < 32) body then None
         else Some (body, tl rest))"

definition parse_digits :: "string \<Rightarrow> (int \<times> string) option" where
  "parse_digits s =
     (let ds = takeWhile is_digit s; rest = dropWhile is_digit s
      in if ds = [] \<or> (1 < length ds \<and> hd ds = CHR ''0'') then None
         else if rest \<noteq> [] \<and> hd rest \<in> {CHR ''.'', CHR ''e'', CHR ''E''} then None
         else Some (foldl (\<lambda>a c. 10 * a + digit_value c) 0 ds, rest))"

fun parse_value :: "nat \<Rightarrow> string \<Rightarrow> (json \<times> string) option"
  and parse_items :: "nat \<Rightarrow> string \<Rightarrow> (json list \<times> string) option"
  and parse_members :: "nat \<Rightarrow> string \<Rightarrow> ((string \<times> json) list \<times> string) option"
where
  "parse_value 0 s = None"
| "parse_value (Suc n) s =
     (case skip_ws s of
        [] \<Rightarrow> None
      | c # r \<Rightarrow>
          if c = CHR ''{'' then
            (case skip_ws r of
               [] \<Rightarrow> None
             | c' # r' \<Rightarrow>
                 if c' = CHR ''}'' then Some (JObj [], r')
                 else map_option (\<lambda>(kvs, t). (JObj kvs, t)) (parse_members n r))
          else if c = CHR ''['' then
            (case skip_ws r of
               [] \<Rightarrow> None
             | c' # r' \<Rightarrow>
                 if c' = CHR '']'' then Some (JArr [], r')
                 else map_option (\<lambda>(xs, t). (JArr xs, t)) (parse_items n r))
          else if c = CHR 0x22 then map_option (\<lambda>(x, t). (JStr x, t)) (parse_string r)
          else if startswith (c # r) ''null'' then Some (JNull, drop 4 (c # r))
          else if startswith (c # r) ''true'' then Some (JBool True, drop 4 (c # r))
          else if startswith (c # r) ''false'' then Some (JBool False, drop 5 (c # r))
          else if c = CHR ''-'' then map_option (\<lambda>(i, t). (JNum (of_int (- i)), t)) (parse_digits r)
          else map_option (\<lambda>(i, t). (JNum (of_int i), t)) (parse_digits (c # r)))"
| "parse_items 0 s = None"
| "parse_items (Suc n) s =
     (case parse_value n s of
        None \<Rightarrow> None
      | Some (v, t) \<Rightarrow>
          (case skip_ws t of
             [] \<Rightarrow> None
           | c # r \<Rightarrow>
               if c = CHR '']'' then Some ([v], r)
               else if c = CHR '','' then map_option (\<lambda>(vs, u). (v # vs, u)) (parse_items n r)
               else None))"
| "parse_members 0 s = None"
| "parse_members (Suc n) s =
     (case skip_ws s of
        [] \<Rightarrow> None
      | q # r \<Rightarrow>
          if q \<noteq> CHR 0x22 then None
          else
            (case parse_string r of
               None \<Rightarrow> None
             | Some (k, t) \<Rightarrow>
                 (case skip_ws t of
                    [] \<Rightarrow> None
                  | c # u \<Rightarrow>
                      if c \<noteq> CHR '':'' then None
                      else
                        (case parse_value n u of
                           None \<Rightarrow> None
                         | Some (v, w) \<Rightarrow>
                             (case skip_ws w of
                                [] \<Rightarrow> None
                              | d # x \<Rightarrow>
                                  if d = CHR ''}'' then Some ([(k, v)], x)
                                  else if d = CHR '','' then
                                    map_option
                                      (\<lambda>(kvs, y). ((k, get_or (map_of kvs k) v) # filter (\<lambda>p. fst p \<noteq> k) kvs, y))
                                      (parse_members n x)
                                  else None)))))"


section \<open>Simulated executor: pass probability (test\_executor.py)\<close>

text \<open>
  A test case is a dictionary; the keys the executor reads are optional string fields
  (\<^verbatim>\<open>test_case.get(key, default)\<close>). Python floats are modelled as rationals.
\<close>

record test_case =
  tc_test_id :: "string option"
  tc_module :: "string option"
  tc_scenario :: "string option"
  tc_priority :: "string option"
  tc_test_type :: "string option"
  tc_category :: "string option"

record modifier =
  pass_rate_mod :: rat
  exec_time_mod :: rat

definition executor_pass_rate :: rat where
  "executor_pass_rate = 85 / 100"

definition priority_modifiers :: "(string \<times> modifier) list" where
  "priority_modifiers =
     [(''critical'', \<lparr>pass_rate_mod = - (1 / 10), exec_time_mod = 3 / 2\<rparr>),
      (''high'', \<lparr>pass_rate_mod = - (5 / 100), exec_time_mod = 12 / 10\<rparr>),
      (''medium'', \<lparr>pass_rate_mod = 0, exec_time_mod = 1\<rparr>),
      (''low'', \<lparr>pass_rate_mod = 5 / 100, exec_time_mod = 8 / 10\<rparr>)]"

definition calculate_pass_probability :: "test_case \<Rightarrow> rat" where
  "calculate_pass_probability tc =
     (let base_probability = executor_pass_rate;
          priority = get_or (tc_priority tc) ''medium'';
          base_probability =
            (case map_of priority_modifiers priority of
               Some m \<Rightarrow> base_probability + pass_rate_mod m
             | None \<Rightarrow> base_probability);
          test_type = get_or (tc_test_type tc) '''';
          base_probability =
            (if contains ''security'' (lower test_type)
             then base_probability - 15 / 100 else base_probability);
          base_probability =
            (if contains ''validation'' (lower test_type)
             then base_probability - 1 / 10 else base_probability);
          base_probability =
            (if contains ''functional'' (lower test_type)
             then base_probability + 5 / 100 else base_probability)
      in max (1 / 10) (min (95 / 100) base_probability))"

text \<open>
  \<^verbatim>\<open>test_passed = random.random() < pass_probability\<close>, with the random draw
  \<open>u\<close> (a number in \<open>[0, 1)\<close>) made explicit.
\<close>

definition test_passed :: "rat \<Rightarrow> test_case \<Rightarrow> bool" where
  "test_passed u tc = (u < calculate_pass_probability tc)"


section \<open>Overview metrics (analyze\_results.py)\<close>

text \<open>
  \<^verbatim>\<open>analyze_results\<close> parses its argument into a list of dictionaries. The model starts
  from that list; a key that a dictionary does not have is \<open>None\<close>, so that
  \<^verbatim>\<open>r.get("status")\<close> is the field itself and \<^verbatim>\<open>r["module"]\<close> raises where the
  field is \<open>None\<close>.
\<close>

record exec_result =
  r_test_id :: "string option"
  r_name :: "string option"
  r_module :: "string option"
  r_status :: "string option"
  r_execution_time :: "rat option"
  r_failure_details :: "string option"

text \<open>\<^verbatim>\<open>sum(1 for r in results if r.get("status") == s)\<close>\<close>

definition count_status :: "string \<Rightarrow> exec_result list \<Rightarrow> int" where
  "count_status s results = int (length (filter (\<lambda>r. r_status r = Some s) results))"

text \<open>The local variables of lines 38 to 43.\<close>

record overview =
  ov_total_tests :: int
  ov_skipped_tests :: int
  ov_executed_tests :: int
  ov_passed_tests :: int
  ov_failed_tests :: int
  ov_pass_rate :: rat

definition basic_metrics :: "exec_result list \<Rightarrow> overview" where
  "basic_metrics results =
     (let total_tests = int (length results);
          skipped_tests = count_status ''SKIPPED'' results;
          executed_tests = total_tests - skipped_tests;
          passed_tests = count_status ''PASS'' results;
          failed_tests = (if 0 \<le> executed_tests then executed_tests - passed_tests else 0);
          pass_rate =
            (if 0 < executed_tests then (of_int passed_tests / of_int executed_tests) * 100 else 0)
      in \<lparr>ov_total_tests = total_tests, ov_skipped_tests = skipped_tests,
          ov_executed_tests = executed_tests, ov_passed_tests = passed_tests,
          ov_failed_tests = failed_tests, ov_pass_rate = pass_rate\<rparr>)"

record module_stats =
  ms_total :: int
  ms_passed :: int
  ms_failed :: int
  ms_skipped :: int
  ms_pass_rate :: rat

definition module_entry :: "exec_result list \<Rightarrow> string \<Rightarrow> string \<times> module_stats" where
  "module_entry results m =
     (let module_tests = filter (\<lambda>r. r_module r = Some m) results;
          module_skipped = count_status ''SKIPPED'' module_tests;
          module_executed = int (length module_tests) - module_skipped;
          module_passed = count_status ''PASS'' module_tests
      in (m, \<lparr>ms_total = int (length module_tests), ms_passed = module_passed,
               ms_failed = max (module_executed - module_passed) 0,
               ms_skipped = module_skipped,
               ms_pass_rate =
                 (if 0 < module_executed
                  then (of_int module_passed / of_int module_executed) * 100 else 0)\<rparr>))"

record failure_detail =
  fd_test_id :: string
  fd_name :: string
  fd_module :: string
  fd_details :: string

datatype advice = OverallBelow90 | ModuleLowPassRate string rat

record summary =
  s_total_tests :: int
  s_passed_tests :: int
  s_failed_tests :: int
  s_skipped_tests :: "int option"
  s_pass_rate :: rat
  s_avg_execution_time :: rat

record analysis =
  an_error :: "py_error option"
  an_summary :: summary
  an_module_results :: "(string \<times> module_stats) list"
  an_failures :: "failure_detail list"
  an_recommendations :: "advice list"

text \<open>The dictionary returned by the \<^verbatim>\<open>except\<close> branch.\<close>

definition error_analysis :: "py_error \<Rightarrow> analysis" where
  "error_analysis e =
     \<lparr>an_error = Some e,
      an_summary = \<lparr>s_total_tests = 0, s_passed_tests = 0, s_failed_tests = 0,
                    s_skipped_tests = None, s_pass_rate = 0, s_avg_execution_time = 0\<rparr>,
      an_module_results = [], an_failures = [], an_recommendations = []\<rparr>"

text \<open>The first key that the entry of a failure in \<^verbatim>\<open>failure_details\<close> misses.\<close>

definition missing_detail_key :: "exec_result \<Rightarrow> string option" where
  "missing_detail_key f =
     (if r_test_id f = None then Some ''test_id''
      else if r_name f = None then Some ''name''
      else if r_failure_details f = None then Some ''failure_details''
      else None)"

text \<open>
  The body of the \<^verbatim>\<open>try\<close> block in source order; the first missing key ends it
  with a \<^verbatim>\<open>KeyError\<close>. The entry \<^verbatim>\<open>failure_analysis\<close>, which comes from a module
  outside this file inside its own \<^verbatim>\<open>try\<close>, and the time stamp are left out.
\<close>

definition analyze_results :: "exec_result list \<Rightarrow> analysis" where
  "analyze_results results =
     (let ov = basic_metrics results in
      if 0 < ov_total_tests ov \<and> list_ex (\<lambda>r. r_execution_time r = None) results
      then error_analysis (KeyError ''execution_time'')
      else if list_ex (\<lambda>r. r_module r = None) results
      then error_analysis (KeyError ''module'')
      else
        let avg_execution_time =
              (if 0 < ov_total_tests ov
               then sum_list (map (\<lambda>r. the (r_execution_time r)) results) / of_int (ov_total_tests ov)
               else 0);
            modules = remdups (rev (remdups (rev (map (\<lambda>r. the (r_module r)) results))));
            module_results = map (module_entry results) modules;
            failures = filter (\<lambda>r. r_status r = Some ''FAIL'') results
        in case List.find (\<lambda>f. missing_detail_key f \<noteq> None) failures of
             Some f \<Rightarrow> error_analysis (KeyError (the (missing_detail_key f)))
           | None \<Rightarrow>
             \<lparr>an_error = None,
              an_summary =
                \<lparr>s_total_tests = ov_total_tests ov, s_passed_tests = ov_passed_tests ov,
                 s_failed_tests = ov_failed_tests ov,
                 s_skipped_tests = Some (ov_skipped_tests ov),
                 s_pass_rate = ov_pass_rate ov, s_avg_execution_time = avg_execution_time\<rparr>,
              an_module_results = module_results,
              an_failures =
                map (\<lambda>f. \<lparr>fd_test_id = the (r_test_id f), fd_name = the (r_name f),
                           fd_module = the (r_module f),
                           fd_details = the (r_failure_details f)\<rparr>) failures,
              an_recommendations =
                (if ov_pass_rate ov < 90 then [OverallBelow90] else [])
                @ map (\<lambda>(m, st). ModuleLowPassRate m (ms_pass_rate st))
                    (filter (\<lambda>(m, st). ms_pass_rate st < 75) module_results)\<rparr>)"

section \<open>Sample inputs\<close>

definition sample_result :: "string \<Rightarrow> string \<Rightarrow> exec_result" where
  "sample_result i st =
     \<lparr>r_test_id = Some i, r_name = Some i, r_module = Some ''suite'', r_status = Some st,
      r_execution_time = Some 1, r_failure_details = Some []\<rparr>"

definition ten_results :: "exec_result list" where
  "ten_results =
     [sample_result ''t1'' ''PASS'', sample_result ''t2'' ''FAIL'', sample_result ''t3'' ''PASS'',
      sample_result ''t4'' ''SKIPPED'', sample_result ''t5'' ''PASS'', sample_result ''t6'' ''PASS'',
      sample_result ''t7'' ''FAIL'', sample_result ''t8'' ''PASS'', sample_result ''t9'' ''PASS'',
      sample_result ''t10'' ''PASS'']"

section \<open>Statistics report (result\_analyzer.py)\<close>

text \<open>
  An execution report as \<^verbatim>\<open>_calculate_statistics\<close> reads it: the summary with its
  optional entries and the execution results, a flat list or the structured form with
  the two optional lists. A missing key is \<open>None\<close>.
\<close>

record test_result =
  t_test_id :: "string option"
  t_test_name :: "string option"
  t_module :: "string option"
  t_category :: "string option"
  t_priority :: "string option"
  t_status :: "string option"
  t_execution_time_seconds :: "rat option"
  t_failure_reason :: "string option"

datatype execution_results =
  Flat "test_result list"
  | Structured "test_result list option" "test_result list option"

record report_summary =
  sm_total_tests :: "int option"
  sm_passed :: "int option"
  sm_failed :: "int option"
  sm_pass_rate_percentage :: "rat option"
  sm_total_execution_time_seconds :: "rat option"

record execution_report =
  rp_execution_id :: "string option"
  rp_summary :: "report_summary option"
  rp_execution_results :: "execution_results option"

record counts =
  c_total :: nat
  c_failed :: nat

record bucket =
  b_total :: nat
  b_failed :: nat
  b_failure_rate :: rat

record stats_overview =
  so_total_tests :: int
  so_passed :: int
  so_failed :: int
  so_pass_rate :: rat
  so_execution_duration :: rat

record distribution =
  d_total :: nat
  d_passed :: nat
  d_failed :: nat

record timing =
  tm_test_id :: string
  tm_time :: rat

record statistics =
  st_overview :: stats_overview
  st_by_module :: "(string \<times> bucket) list"
  st_by_category :: "(string \<times> bucket) list"
  st_by_priority :: "(string \<times> bucket) list"
  st_slowest_tests :: "timing list"
  st_fastest_tests :: "timing list"
  st_average_execution_time :: rat
  st_total_execution_time :: rat
  st_baseline_tests :: distribution
  st_ai_generated_tests :: distribution

definition empty_summary :: report_summary where
  "empty_summary =
     \<lparr>sm_total_tests = None, sm_passed = None, sm_failed = None,
      sm_pass_rate_percentage = None, sm_total_execution_time_seconds = None\<rparr>"

text \<open>The counters of one group of tests in \<^verbatim>\<open>test_distribution\<close>.\<close>

definition distribution_of :: "test_result list \<Rightarrow> distribution" where
  "distribution_of tests =
     \<lparr>d_total = length tests,
      d_passed = length (filter (\<lambda>t. t_status t = Some ''PASSED'') tests),
      d_failed = length (filter (\<lambda>t. t_status t \<noteq> Some ''PASSED'') tests)\<rparr>"

definition baseline_of :: "execution_results \<Rightarrow> test_result list" where
  "baseline_of er = (case er of Flat ts \<Rightarrow> [] | Structured b a \<Rightarrow> get_or b [])"

definition ai_generated_of :: "execution_results \<Rightarrow> test_result list" where
  "ai_generated_of er = (case er of Flat ts \<Rightarrow> ts | Structured b a \<Rightarrow> get_or a [])"

definition all_tests_of :: "execution_report \<Rightarrow> test_result list" where
  "all_tests_of report =
     (let er = get_or (rp_execution_results report) (Flat [])
      in baseline_of er @ ai_generated_of er)"

text \<open>
  One step of the loop over \<^verbatim>\<open>all_tests\<close> on one \<^verbatim>\<open>defaultdict\<close>: the entry of
  the key is created with zero counters when it is new, its total is incremented, and
  its failed counter too when the test failed.
\<close>

fun bump :: "bool \<Rightarrow> string \<Rightarrow> (string \<times> counts) list \<Rightarrow> (string \<times> counts) list" where
  "bump failed k [] = [(k, \<lparr>c_total = 1, c_failed = (if failed then 1 else 0)\<rparr>)]"
| "bump failed k ((k', c) # kvs) =
     (if k = k'
      then (k', \<lparr>c_total = c_total c + 1,
                 c_failed = (if failed then c_failed c + 1 else c_failed c)\<rparr>) # kvs
      else (k', c) # bump failed k kvs)"

definition count_by :: "(test_result \<Rightarrow> string) \<Rightarrow> test_result list \<Rightarrow> (string \<times> counts) list" where
  "count_by key tests =
     foldl (\<lambda>acc t. bump (t_status t = Some ''FAILED'') (key t) acc) [] tests"

definition with_failure_rate :: "counts \<Rightarrow> bucket" where
  "with_failure_rate c =
     \<lparr>b_total = c_total c, b_failed = c_failed c,
      b_failure_rate =
        py_round (if 0 < c_total c then of_nat (c_failed c) / of_nat (c_total c) * 100 else 0) 2\<rparr>"

definition buckets_by :: "(test_result \<Rightarrow> string) \<Rightarrow> test_result list \<Rightarrow> (string \<times> bucket) list" where
  "buckets_by key tests = map (\<lambda>(k, c). (k, with_failure_rate c)) (count_by key tests)"

definition timing_of :: "test_result \<Rightarrow> timing" where
  "timing_of t =
     \<lparr>tm_test_id = get_or (t_test_id t) ''Unknown'',
      tm_time = get_or (t_execution_time_seconds t) 0\<rparr>"

definition calculate_statistics :: "execution_report \<Rightarrow> statistics" where
  "calculate_statistics report =
     (let summary = get_or (rp_summary report) empty_summary;
          er = get_or (rp_execution_results report) (Flat []);
          all_tests = all_tests_of report;
          sorted_by_time = sort_key (\<lambda>t. get_or (t_execution_time_seconds t) 0) all_tests;
          total_time = sum_list (map (\<lambda>t. get_or (t_execution_time_seconds t) 0) all_tests)
      in \<lparr>st_overview =
            \<lparr>so_total_tests = get_or (sm_total_tests summary) 0,
             so_passed = get_or (sm_passed summary) 0,
             so_failed = get_or (sm_failed summary) 0,
             so_pass_rate = get_or (sm_pass_rate_percentage summary) 0,
             so_execution_duration = get_or (sm_total_execution_time_seconds summary) 0\<rparr>,
          st_by_module = buckets_by (\<lambda>t. get_or (t_module t) ''Unknown'') all_tests,
          st_by_category = buckets_by (\<lambda>t. get_or (t_category t) ''Unknown'') all_tests,
          st_by_priority = buckets_by (\<lambda>t. get_or (t_priority t) ''medium'') all_tests,
          st_slowest_tests =
            (if all_tests = [] then []
             else map timing_of (drop (length sorted_by_time - 3) sorted_by_time)),
          st_fastest_tests =
            (if all_tests = [] then [] else map timing_of (take 3 sorted_by_time)),
          st_average_execution_time =
            (if all_tests = [] then 0 else py_round (total_time / of_nat (length all_tests)) 2),
          st_total_execution_time = (if all_tests = [] then 0 else py_round total_time 2),
          st_baseline_tests = distribution_of (baseline_of er),
          st_ai_generated_tests = distribution_of (ai_generated_of er)\<rparr>)"

text \<open>Sum of the \<^verbatim>\<open>total\<close> counters of the buckets of one dimension.\<close>

definition bucket_total_sum :: "(string \<times> bucket) list \<Rightarrow> nat" where
  "bucket_total_sum buckets = sum_list (map (\<lambda>kv. b_total (snd kv)) buckets)"

subsection \<open>The summary the simulated executor writes (test\_executor.py, lines 95 to 126)\<close>

definition executor_summary :: "test_result list \<Rightarrow> report_summary" where
  "executor_summary results =
     (let total = length results;
          passed = length (filter (\<lambda>t. t_status t = Some ''PASSED'') results);
          failed = length (filter (\<lambda>t. t_status t \<noteq> Some ''PASSED'') results);
          total_duration = sum_list (map (\<lambda>t. get_or (t_execution_time_seconds t) 0) results)
      in \<lparr>sm_total_tests = Some (int total), sm_passed = Some (int passed),
          sm_failed = Some (int failed),
          sm_pass_rate_percentage =
            Some (py_round (if 0 < total then of_nat passed / of_nat total * 100 else 0) 2),
          sm_total_execution_time_seconds = Some (py_round total_duration 2)\<rparr>)"

definition executor_report :: "string \<Rightarrow> test_result list \<Rightarrow> execution_report" where
  "executor_report execution_id results =
     \<lparr>rp_execution_id = Some execution_id, rp_summary = Some (executor_summary results),
      rp_execution_results = Some (Flat results)\<rparr>"

subsection \<open>Rule-based insights\<close>








subsection \<open>Insights from the generative collaborator, with the fallback\<close>









text \<open>The sample report of \<^verbatim>\<open>create_sample_execution_report\<close>.\<close>

definition sample_test ::
  "string \<Rightarrow> string \<Rightarrow> string \<Rightarrow> string \<Rightarrow> string \<Rightarrow> string \<Rightarrow> rat \<Rightarrow> string option \<Rightarrow> test_result" where
  "sample_test i n st m c p t fr =
     \<lparr>t_test_id = Some i, t_test_name = Some n, t_module = Some m, t_category = Some c,
      t_priority = Some p, t_status = Some st, t_execution_time_seconds = Some t,
      t_failure_reason = fr\<rparr>"

definition sample_execution_report :: execution_report where
  "sample_execution_report =
     \<lparr>rp_execution_id = Some ''EXEC_20240115_140230_ABC123'',
      rp_summary =
        Some \<lparr>sm_total_tests = Some 15, sm_passed = Some 11, sm_failed = Some 4,
              sm_pass_rate_percentage = None,
              sm_total_execution_time_seconds = Some (675 / 10)\<rparr>,
      rp_execution_results =
        Some (Structured
          (Some
            [sample_test ''FP-001'' ''Full Payment'' ''PASSED'' ''Payments & Rewards''
               ''Happy Path'' ''high'' (32 / 10) None,
             sample_test ''SEC-001'' ''OTP Verification'' ''FAILED'' ''Security''
               ''Security'' ''high'' (78 / 10) (Some ''OTP timeout''),
             sample_test ''VAL-001'' ''Input Validation'' ''PASSED'' ''Validation''
               ''Negative Path'' ''medium'' (21 / 10) None])
          (Some
            [sample_test ''AI-SEC-001'' ''Session Timeout'' ''FAILED'' ''Security''
               ''Security'' ''high'' (85 / 10) (Some ''Session not invalidated''),
             sample_test ''AI-PAY-001'' ''Concurrent Payments'' ''FAILED''
               ''Payments & Rewards'' ''Edge Case'' ''medium'' (63 / 10)
               (Some ''Race condition detected''),
             sample_test ''AI-SEC-002'' ''Brute Force Protection'' ''FAILED'' ''Security''
               ''Security'' ''high'' (92 / 10) (Some ''No rate limiting'')]))\<rparr>"

definition one_passed :: "test_result list" where
  "one_passed = [sample_test ''T-1'' ''t'' ''PASSED'' ''Core'' ''Happy Path'' ''low'' 1 None]"


section \<open>JUnit report normalizer (run\_tests.py)\<close>

text \<open>
  An element of the parsed report as \<^verbatim>\<open>xml.etree.ElementTree\<close> gives it: tag,
  attributes, the text before the first child (\<open>None\<close> when there is none) and the
  children. The model starts from the parsed tree.
\<close>

datatype xml =
  Element (xml_tag: string) (xml_attrib: "(string \<times> string) list")
    (xml_text: "string option") (xml_children: "xml list")

text \<open>\<^verbatim>\<open>root.findall(".//tag")\<close>: the descendants of the root with the tag, in
  document order; the root itself is not among them.\<close>

fun descendants :: "xml \<Rightarrow> xml list" where
  "descendants (Element t a x cs) = concat (map (\<lambda>c. c # descendants c) cs)"

definition findall_descendants :: "string \<Rightarrow> xml \<Rightarrow> xml list" where
  "findall_descendants t doc = filter (\<lambda>e. xml_tag e = t) (descendants doc)"

text \<open>\<^verbatim>\<open>case.find(tag)\<close>: the first child with the tag.\<close>

definition find_child :: "string \<Rightarrow> xml \<Rightarrow> xml option" where
  "find_child t e = List.find (\<lambda>c. xml_tag c = t) (xml_children e)"

definition attr_get :: "xml \<Rightarrow> string \<Rightarrow> string option" where
  "attr_get e k = map_of (xml_attrib e) k"

text \<open>
  Python's \<^verbatim>\<open>float(str)\<close> and \<^verbatim>\<open>round(x, 4)\<close> on floats are library functions
  and parameters of the model: \<open>fl_parse\<close> is \<open>None\<close> where \<^verbatim>\<open>float\<close> raises
  \<^verbatim>\<open>ValueError\<close>, \<open>fl_zero\<close> is \<^verbatim>\<open>0.0\<close>.
\<close>

record 'f float_ops =
  fl_parse :: "string \<Rightarrow> 'f option"
  fl_zero :: 'f
  fl_round4 :: "'f \<Rightarrow> 'f"

record 'f junit_result =
  jr_test_id :: string
  jr_name :: string
  jr_module :: string
  jr_status :: string
  jr_execution_time :: 'f
  jr_timestamp :: string
  jr_failure_details :: string

text \<open>The failure details taken from a \<^verbatim>\<open>failure\<close> or \<^verbatim>\<open>error\<close> element.\<close>

definition details_of :: "xml \<Rightarrow> string" where
  "details_of el =
     (let failure_details = strip (get_or (attr_get el ''message'') [])
      in case xml_text el of
           None \<Rightarrow> failure_details
         | Some t \<Rightarrow>
             if t \<noteq> [] then strip (failure_details @ [CHR 0x0A] @ strip t)
             else failure_details)"

definition junit_case :: "'f float_ops \<Rightarrow> string \<Rightarrow> xml \<Rightarrow> 'f junit_result" where
  "junit_case F now case_el =
     (let name = get_or (attr_get case_el ''name'') [];
          classname = get_or (attr_get case_el ''classname'') [];
          time_str = get_or (attr_get case_el ''time'') ''0'';
          exec_time = (case fl_parse F time_str of Some x \<Rightarrow> x | None \<Rightarrow> fl_zero F);
          failure = find_child ''failure'' case_el;
          error = find_child ''error'' case_el;
          skipped = find_child ''skipped'' case_el;
          status =
            (if failure \<noteq> None then ''FAIL''
             else if error \<noteq> None then ''FAIL''
             else if skipped \<noteq> None then ''SKIPPED'' else ''PASS'');
          failure_details =
            (if failure \<noteq> None then details_of (the failure)
             else if error \<noteq> None then details_of (the error) else []);
          test_id = (if classname \<noteq> [] then classname @ ''::'' @ name else name)
      in \<lparr>jr_test_id = test_id, jr_name = name,
          jr_module = (if classname \<noteq> [] then classname else ''unknown''),
          jr_status = status,
          jr_execution_time = fl_round4 F exec_time,
          jr_timestamp = now,
          jr_failure_details = (if status = ''FAIL'' then failure_details else [])\<rparr>)"

definition parse_junit_to_results :: "'f float_ops \<Rightarrow> string \<Rightarrow> xml \<Rightarrow> 'f junit_result list" where
  "parse_junit_to_results F now doc =
     map (junit_case F now) (findall_descendants ''testcase'' doc)"


subsection \<open>Float operations on plain decimal numerals, and a sample report\<close>

text \<open>
  On the numerals \<^verbatim>\<open>digits\<close> and \<^verbatim>\<open>digits.digits\<close> this is the value
  \<^verbatim>\<open>float\<close> returns (as an exact rational); every other text is rejected here.
\<close>

definition parse_decimal :: "string \<Rightarrow> rat option" where
  "parse_decimal s =
     (let ip = takeWhile is_digit s; r = dropWhile is_digit s;
          num = (\<lambda>ds. foldl (\<lambda>a c. 10 * a + digit_value c) 0 ds)
      in if ip = [] then None
         else if r = [] then Some (of_int (num ip))
         else if hd r = CHR ''.'' \<and> tl r \<noteq> [] \<and> list_all is_digit (tl r)
         then Some (of_int (num ip) + of_int (num (tl r)) / 10 ^ length (tl r))
         else None)"

definition decimal_floats :: "rat float_ops" where
  "decimal_floats =
     \<lparr>fl_parse = parse_decimal, fl_zero = 0, fl_round4 = (\<lambda>x. py_round x 4)\<rparr>"

definition passing_case :: xml where
  "passing_case =
     Element ''testcase'' [(''classname'', ''tests.test_pay''), (''name'', ''test_ok''),
       (''time'', ''0.5'')] None []"

definition failure_element :: xml where
  "failure_element = Element ''failure'' [(''message'', ''assert 1 == 2'')] (Some '' trace '') []"

definition failing_case :: xml where
  "failing_case =
     Element ''testcase'' [(''classname'', ''tests.test_pay''), (''name'', ''test_bad''),
       (''time'', ''soon'')] None [failure_element]"

definition skipped_element :: xml where
  "skipped_element = Element ''skipped'' [(''message'', ''not yet'')] None []"

definition skipped_case :: xml where
  "skipped_case = Element ''testcase'' [(''name'', ''test_later'')] None [skipped_element]"

definition error_element :: xml where
  "error_element = Element ''error'' [(''message'', ''collection failure'')] None []"

text \<open>A collection error as pytest reports it: the class name is there and empty.\<close>

definition collection_error_case :: xml where
  "collection_error_case =
     Element ''testcase'' [(''classname'', []), (''name'', ''tests.test_mod''),
       (''time'', ''0'')] None [error_element]"

definition sample_junit :: xml where
  "sample_junit =
     Element ''testsuites'' [] None
       [Element ''testsuite'' [(''name'', ''pytest'')] None
          [passing_case, failing_case, skipped_case, collection_error_case]]"

section \<open>Extraction of generated tests (test\_generator.py)\<close>

subsection \<open>The regular expressions\<close>

text \<open>
  \<^verbatim>\<open>re.findall\<close> scans the text from the left: where the pattern matches, the match is
  recorded and the scan goes on behind it; where it does not, the scan moves one
  character on. A matcher returns what \<^verbatim>\<open>findall\<close> records for a match at the start of
  its argument together with the length of the match, which is never 0.
\<close>

fun scan_matches :: "(string \<Rightarrow> (string \<times> nat) option) \<Rightarrow> nat \<Rightarrow> string \<Rightarrow> string list" where
  "scan_matches m skip [] = []"
| "scan_matches m skip (c # cs) =
     (if 0 < skip then scan_matches m (skip - 1) cs
      else case m (c # cs) of
             Some (v, n) \<Rightarrow> v # scan_matches m (n - 1) cs
           | None \<Rightarrow> scan_matches m 0 cs)"

definition dquote :: char where
  "dquote = CHR 0x22"

text \<open>The pattern \<^verbatim>\<open>"key":\s*"([^"]+)"\<close>; the group is what is recorded.\<close>

definition match_field :: "string \<Rightarrow> string \<Rightarrow> (string \<times> nat) option" where
  "match_field key s =
     (let prefix = dquote # key @ [dquote, CHR '':'']
      in if \<not> startswith s prefix then None
         else
           let r1 = drop (length prefix) s;
               ws = takeWhile is_space r1;
               r2 = dropWhile is_space r1
           in case r2 of
                [] \<Rightarrow> None
              | q # r3 \<Rightarrow>
                  if q \<noteq> dquote then None
                  else
                    let v = takeWhile (\<lambda>c. c \<noteq> dquote) r3;
                        r4 = dropWhile (\<lambda>c. c \<noteq> dquote) r3
                    in if v = [] \<or> r4 = [] then None
                       else Some (v, length prefix + length ws + 1 + length v + 1))"

definition findall_field :: "string \<Rightarrow> string \<Rightarrow> string list" where
  "findall_field key content = scan_matches (match_field key) 0 content"





subsection \<open>Field harvesting and the synthetic fallback\<close>

definition test_record ::
  "string \<Rightarrow> string \<Rightarrow> string \<Rightarrow> string \<Rightarrow> string \<Rightarrow> string \<Rightarrow> json" where
  "test_record test_id modl scenario priority test_type category =
     JObj [(''test_id'', JStr test_id), (''module'', JStr modl), (''scenario'', JStr scenario),
           (''priority'', JStr priority), (''test_type'', JStr test_type),
           (''category'', JStr category)]"

text \<open>\<^verbatim>\<open>xs[i] if i < len(xs) else d\<close>\<close>

definition nth_or :: "'a list \<Rightarrow> nat \<Rightarrow> 'a \<Rightarrow> 'a" where
  "nth_or xs i d = (if i < length xs then xs ! i else d)"

definition harvested_record ::
  "string list \<Rightarrow> string list \<Rightarrow> string list \<Rightarrow> string list \<Rightarrow> nat \<Rightarrow> json" where
  "harvested_record test_ids modules scenarios priorities i =
     test_record (nth_or test_ids i (''TC-AI-'' @ zero_pad 3 (i + 1)))
       (nth_or modules i ''Banking System'')
       (nth_or scenarios i (''Banking test scenario '' @ dec (i + 1)))
       (nth_or priorities i ''medium'') ''functional'' ''extracted_tests''"

text \<open>\<^verbatim>\<open>min(30, max(len(test_ids), len(modules), len(scenarios), 10))\<close>\<close>

definition max_tests :: "string list \<Rightarrow> string list \<Rightarrow> string list \<Rightarrow> nat" where
  "max_tests test_ids modules scenarios =
     min 30 (max (max (max (length test_ids) (length modules)) (length scenarios)) 10)"

definition extract_structured_data :: "string \<Rightarrow> json" where
  "extract_structured_data content =
     (let test_ids = findall_field ''test_id'' content;
          modules = findall_field ''module'' content;
          scenarios = findall_field ''scenario'' content;
          priorities = findall_field ''priority'' content;
          tests =
            map (harvested_record test_ids modules scenarios priorities)
              [0..<max_tests test_ids modules scenarios]
      in if tests \<noteq> [] then
           JObj [(''generated_tests'', JArr tests),
                 (''test_summary'',
                  JObj [(''total_tests'', JNum (of_nat (length tests))),
                        (''extraction_method'', JStr ''manual_pattern_matching'')])]
         else JObj [])"








subsection \<open>The recovery chain of \<^verbatim>\<open>execute\<close> (lines 304 to 413)\<close>
















subsection \<open>Sample texts\<close>





text \<open>
  The parsed values that the structure check passes on with no record: a non-empty
  scalar, which is wrapped into an empty list, and a non-empty dictionary whose
  \<^verbatim>\<open>generated_tests\<close> entry is anything but a non-empty list.
\<close>

definition passes_empty :: "json \<Rightarrow> bool" where
  "passes_empty g =
     (truthy g \<and>
      (case g of
         JObj kvs \<Rightarrow>
           (case map_of kvs ''generated_tests'' of
              None \<Rightarrow> False
            | Some v \<Rightarrow> (case v of JArr xs \<Rightarrow> xs = [] | _ \<Rightarrow> True))
       | JArr xs \<Rightarrow> False
       | _ \<Rightarrow> True))"

section \<open>Pipeline controller (orchestrator.py)\<close>

subsection \<open>Artifact files\<close>







subsection \<open>The generation stage up to the call of the collaborator (test\_generator.py)\<close>











subsection \<open>\<^verbatim>\<open>run_pipeline\<close>\<close>













subsection \<open>Sample runs\<close>








section \<open>Properties\<close>

subsection \<open>Pass probability\<close>

text \<open>
  C10. For every test-case record, whatever its priority and test type, the pass
  probability computed by the simulated executor lies in the interval [0.1, 0.95];
  hence it is strictly between 0 and 1, and both outcomes of the random draw are
  possible: the draw 0 passes the test and the draw 0.95 fails it.
\<close>

theorem pass_probability_clamped:
  "1 / 10 \<le> calculate_pass_probability tc
   \<and> calculate_pass_probability tc \<le> 95 / 100
   \<and> 0 < calculate_pass_probability tc
   \<and> calculate_pass_probability tc < 1
   \<and> test_passed 0 tc
   \<and> \<not> test_passed (95 / 100) tc"
proof -
  have lo: "1 / 10 \<le> calculate_pass_probability tc"
    unfolding calculate_pass_probability_def Let_def by (rule max.cobounded1)
  have hi: "calculate_pass_probability tc \<le> 95 / 100"
    unfolding calculate_pass_probability_def Let_def by simp
  from lo have pos: "0 < calculate_pass_probability tc" by simp
  from hi have lt1: "calculate_pass_probability tc < 1" by simp
  from lo hi pos lt1 show ?thesis
    by (simp add: test_passed_def)
qed

subsection \<open>Overview metrics\<close>

lemma count_status_nonneg: "0 \<le> count_status s rs"
  by (simp add: count_status_def)

lemma count_status_disjoint:
  "s \<noteq> t \<Longrightarrow> count_status s rs + count_status t rs \<le> int (length rs)"
proof (induction rs)
  case Nil
  then show ?case by (simp add: count_status_def)
next
  case (Cons r rs)
  then show ?case by (auto simp: count_status_def)
qed

lemma basic_metrics_passed_le_executed:
  "ov_passed_tests (basic_metrics rs) \<le> ov_executed_tests (basic_metrics rs)"
  using count_status_disjoint [of "''PASS''" "''SKIPPED''" rs]
  by (simp add: basic_metrics_def Let_def)

lemma basic_metrics_executed_nonneg: "0 \<le> ov_executed_tests (basic_metrics rs)"
  using basic_metrics_passed_le_executed [of rs] count_status_nonneg [of "''PASS''" rs]
  by (simp add: basic_metrics_def Let_def)

lemma basic_metrics_pass_rate_bounds:
  "0 \<le> ov_pass_rate (basic_metrics rs) \<and> ov_pass_rate (basic_metrics rs) \<le> 100"
proof -
  define p where "p = count_status ''PASS'' rs"
  define e where "e = int (length rs) - count_status ''SKIPPED'' rs"
  define q :: rat where "q = of_int p / of_int e"
  have pe: "p \<le> e"
    unfolding p_def e_def
    using count_status_disjoint [of "''PASS''" "''SKIPPED''" rs] by simp
  have p0: "0 \<le> p" unfolding p_def by (rule count_status_nonneg)
  have rate: "ov_pass_rate (basic_metrics rs) = (if 0 < e then q * 100 else 0)"
    by (simp add: basic_metrics_def Let_def p_def e_def q_def)
  show ?thesis
  proof (cases "0 < e")
    case True
    then have "q \<le> 1" unfolding q_def using pe by simp
    moreover have "0 \<le> q" unfolding q_def using p0 True by simp
    ultimately show ?thesis unfolding rate using True by simp
  next
    case False
    then show ?thesis unfolding rate by simp
  qed
qed

text \<open>
  C3. For every list of execution result records the overview computed by
  \<^verbatim>\<open>analyze_results\<close> satisfies: executed = total - skipped, passed + failed =
  executed, the pass rate lies in [0, 100], and the pass rate is 0 when nothing was
  executed. The summary that is returned (also the one of the error branch) keeps the
  bounds on the pass rate and passed + failed = total - skipped.
\<close>

theorem overview_invariants:
  "ov_executed_tests (basic_metrics rs) = ov_total_tests (basic_metrics rs) - ov_skipped_tests (basic_metrics rs)
   \<and> ov_passed_tests (basic_metrics rs) + ov_failed_tests (basic_metrics rs) = ov_executed_tests (basic_metrics rs)
   \<and> 0 \<le> ov_pass_rate (basic_metrics rs) \<and> ov_pass_rate (basic_metrics rs) \<le> 100
   \<and> (ov_executed_tests (basic_metrics rs) = 0 \<longrightarrow> ov_pass_rate (basic_metrics rs) = 0)
   \<and> 0 \<le> s_pass_rate (an_summary (analyze_results rs))
   \<and> s_pass_rate (an_summary (analyze_results rs)) \<le> 100
   \<and> s_passed_tests (an_summary (analyze_results rs)) + s_failed_tests (an_summary (analyze_results rs))
       = s_total_tests (an_summary (analyze_results rs))
         - get_or (s_skipped_tests (an_summary (analyze_results rs))) 0"
proof -
  have a: "ov_executed_tests (basic_metrics rs) = ov_total_tests (basic_metrics rs) - ov_skipped_tests (basic_metrics rs)"
    by (simp add: basic_metrics_def Let_def)
  have b: "ov_passed_tests (basic_metrics rs) + ov_failed_tests (basic_metrics rs) = ov_executed_tests (basic_metrics rs)"
    using basic_metrics_executed_nonneg [of rs] by (simp add: basic_metrics_def Let_def)
  note c = basic_metrics_pass_rate_bounds [of rs]
  have d: "ov_executed_tests (basic_metrics rs) = 0 \<longrightarrow> ov_pass_rate (basic_metrics rs) = 0"
    by (simp add: basic_metrics_def Let_def)
  have e: "0 \<le> s_pass_rate (an_summary (analyze_results rs)) \<and> s_pass_rate (an_summary (analyze_results rs)) \<le> 100"
    using c by (simp add: analyze_results_def error_analysis_def Let_def split: option.splits)
  have f: "s_passed_tests (an_summary (analyze_results rs)) + s_failed_tests (an_summary (analyze_results rs))
       = s_total_tests (an_summary (analyze_results rs))
         - get_or (s_skipped_tests (an_summary (analyze_results rs))) 0"
    using a b
    by (simp add: analyze_results_def error_analysis_def Let_def get_or_def split: option.splits)
  from a b c d e f show ?thesis by blast
qed

lemma ten_results_counts:
  "length ten_results = 10" "count_status ''FAIL'' ten_results = 2"
  "count_status ''SKIPPED'' ten_results = 1" "count_status ''PASS'' ten_results = 7"
  by (simp_all add: ten_results_def sample_result_def count_status_def)

theorem overview_invariants_witness:
  "ov_executed_tests (basic_metrics [sample_result ''t'' ''SKIPPED'']) = 0
   \<and> ov_pass_rate (basic_metrics [sample_result ''t'' ''SKIPPED'']) = 0
   \<and> ov_passed_tests (basic_metrics ten_results) + ov_failed_tests (basic_metrics ten_results) = 9"
proof -
  have e: "ov_executed_tests (basic_metrics [sample_result ''t'' ''SKIPPED'']) = 0"
    by (simp add: basic_metrics_def count_status_def sample_result_def)
  have n: "ov_executed_tests (basic_metrics ten_results) = 9"
    by (simp add: basic_metrics_def Let_def ten_results_counts)
  show ?thesis
    using e n overview_invariants [of "[sample_result ''t'' ''SKIPPED'']"]
      overview_invariants [of ten_results]
    by simp
qed






subsection \<open>Statistics report\<close>

lemma bump_total_sum:
  "sum_list (map (\<lambda>kv. c_total (snd kv)) (bump f k kvs))
     = Suc (sum_list (map (\<lambda>kv. c_total (snd kv)) kvs))"
  by (induction kvs) auto

lemma foldl_bump_total_sum:
  "sum_list (map (\<lambda>kv. c_total (snd kv)) (foldl (\<lambda>acc t. bump (p t) (key t) acc) acc tests))
     = sum_list (map (\<lambda>kv. c_total (snd kv)) acc) + length tests"
proof (induction tests arbitrary: acc)
  case Nil
  then show ?case by simp
next
  case (Cons t ts)
  show ?case
    by (simp add: Cons.IH bump_total_sum)
qed

lemma with_failure_rate_totals:
  "map (\<lambda>kv. b_total (snd kv)) (map (\<lambda>(k, c). (k, with_failure_rate c)) xs)
     = map (\<lambda>kv. c_total (snd kv)) xs"
  by (induction xs) (auto simp: with_failure_rate_def)

lemma buckets_by_total_sum: "bucket_total_sum (buckets_by key tests) = length tests"
  unfolding bucket_total_sum_def buckets_by_def count_by_def with_failure_rate_totals
  by (simp add: foldl_bump_total_sum)

lemma by_priority_total_sum:
  "bucket_total_sum (st_by_priority (calculate_statistics report)) = length (all_tests_of report)"
  by (simp add: calculate_statistics_def Let_def buckets_by_total_sum)

lemma overview_total_tests:
  "so_total_tests (st_overview (calculate_statistics report))
     = get_or (sm_total_tests (get_or (rp_summary report) empty_summary)) 0"
  by (simp add: calculate_statistics_def Let_def)

text \<open>
  C4, amended. For every execution report, the sum of the \<^verbatim>\<open>total\<close> counters of the
  \<^verbatim>\<open>by_priority\<close> buckets equals the number of test records in the report's
  execution results. It equals the overview's total test count whenever the
  \<^verbatim>\<open>total_tests\<close> entry of the report's summary, which the overview copies, is that
  number, as it is in every report the simulated executor builds.
\<close>

theorem priority_totals_sum:
  "bucket_total_sum (st_by_priority (calculate_statistics report)) = length (all_tests_of report)
   \<and> (sm_total_tests (get_or (rp_summary report) empty_summary)
        = Some (int (length (all_tests_of report)))
      \<longrightarrow> int (bucket_total_sum (st_by_priority (calculate_statistics report)))
            = so_total_tests (st_overview (calculate_statistics report)))
   \<and> int (bucket_total_sum (st_by_priority (calculate_statistics (executor_report i results))))
       = so_total_tests (st_overview (calculate_statistics (executor_report i results)))"
proof -
  have ex: "all_tests_of (executor_report i results) = results"
    by (simp add: all_tests_of_def executor_report_def baseline_of_def ai_generated_of_def
        get_or_def)
  have ov: "so_total_tests (st_overview (calculate_statistics (executor_report i results)))
              = int (length results)"
    unfolding overview_total_tests
    by (simp add: executor_report_def executor_summary_def get_or_def Let_def)
  have a: "bucket_total_sum (st_by_priority (calculate_statistics report))
             = length (all_tests_of report)"
    by (rule by_priority_total_sum)
  have b: "sm_total_tests (get_or (rp_summary report) empty_summary)
             = Some (int (length (all_tests_of report)))
           \<longrightarrow> int (bucket_total_sum (st_by_priority (calculate_statistics report)))
                 = so_total_tests (st_overview (calculate_statistics report))"
    unfolding overview_total_tests a by (simp add: get_or_def)
  have c: "int (bucket_total_sum (st_by_priority (calculate_statistics (executor_report i results))))
             = so_total_tests (st_overview (calculate_statistics (executor_report i results)))"
    unfolding ov by (simp add: by_priority_total_sum ex)
  from a b c show ?thesis by blast
qed

theorem priority_totals_sum_witness:
  "sm_total_tests (get_or (rp_summary (executor_report ''E'' one_passed)) empty_summary)
     = Some (int (length (all_tests_of (executor_report ''E'' one_passed))))
   \<and> int (bucket_total_sum (st_by_priority (calculate_statistics (executor_report ''E'' one_passed))))
       = so_total_tests (st_overview (calculate_statistics (executor_report ''E'' one_passed)))
   \<and> so_total_tests (st_overview (calculate_statistics (executor_report ''E'' one_passed))) = 1"
proof -
  have h: "sm_total_tests (get_or (rp_summary (executor_report ''E'' one_passed)) empty_summary)
     = Some (int (length (all_tests_of (executor_report ''E'' one_passed))))"
    by (simp add: executor_report_def executor_summary_def get_or_def all_tests_of_def
        baseline_of_def ai_generated_of_def Let_def)
  have t: "so_total_tests (st_overview (calculate_statistics (executor_report ''E'' one_passed))) = 1"
    by (simp add: overview_total_tests executor_report_def executor_summary_def get_or_def
        Let_def one_passed_def)
  show ?thesis
    using h t priority_totals_sum [of "executor_report ''E'' one_passed" "''E''" one_passed]
    by simp
qed

lemma sample_report_tests: "length (all_tests_of sample_execution_report) = 6"
  by (simp add: all_tests_of_def sample_execution_report_def baseline_of_def
      ai_generated_of_def get_or_def)

text \<open>
  C4, as stated, fails on the sample report of \<^verbatim>\<open>create_sample_execution_report\<close>:
  its summary says 15 tests, its execution results hold 6.
\<close>

theorem priority_totals_sum_counterexample:
  "bucket_total_sum (st_by_priority (calculate_statistics sample_execution_report)) = 6
   \<and> so_total_tests (st_overview (calculate_statistics sample_execution_report)) = 15"
  by (simp add: by_priority_total_sum sample_report_tests overview_total_tests)
    (simp add: sample_execution_report_def get_or_def)

subsection \<open>Rule-based fallback of the advisory insights\<close>









subsection \<open>JUnit report normalizer\<close>














lemma sample_junit_results:
  "parse_junit_to_results decimal_floats ''2025-01-01 00:00:00'' sample_junit =
     [\<lparr>jr_test_id = ''tests.test_pay::test_ok'', jr_name = ''test_ok'',
       jr_module = ''tests.test_pay'', jr_status = ''PASS'', jr_execution_time = 1 / 2,
       jr_timestamp = ''2025-01-01 00:00:00'', jr_failure_details = []\<rparr>,
      \<lparr>jr_test_id = ''tests.test_pay::test_bad'', jr_name = ''test_bad'',
       jr_module = ''tests.test_pay'', jr_status = ''FAIL'', jr_execution_time = 0,
       jr_timestamp = ''2025-01-01 00:00:00'',
       jr_failure_details = ''assert 1 == 2'' @ [CHR 0x0A] @ ''trace''\<rparr>,
      \<lparr>jr_test_id = ''test_later'', jr_name = ''test_later'',
       jr_module = ''unknown'', jr_status = ''SKIPPED'', jr_execution_time = 0,
       jr_timestamp = ''2025-01-01 00:00:00'', jr_failure_details = []\<rparr>,
      \<lparr>jr_test_id = ''tests.test_mod'', jr_name = ''tests.test_mod'',
       jr_module = ''unknown'', jr_status = ''FAIL'', jr_execution_time = 0,
       jr_timestamp = ''2025-01-01 00:00:00'',
       jr_failure_details = ''collection failure''\<rparr>]"
  by code_simp


subsection \<open>Field harvesting\<close>

lemma max_tests_bounds:
  "0 < max_tests a b c" "10 \<le> max_tests a b c" "max_tests a b c \<le> 30"
  by (simp_all add: max_tests_def)








subsection \<open>The recovery chain\<close>

lemma harvest_not_passes_empty: "\<not> passes_empty (extract_structured_data content)"
  using max_tests_bounds(1) [of "findall_field ''test_id'' content"
      "findall_field ''module'' content" "findall_field ''scenario'' content"]
  by (simp add: extract_structured_data_def Let_def passes_empty_def)




lemma content_record_zip_nonempty:
  "a \<noteq> [] \<Longrightarrow> b \<noteq> [] \<Longrightarrow> c \<noteq> [] \<Longrightarrow> zip a (zip b c) \<noteq> []"
  by (cases a; cases b; cases c) simp_all












subsection \<open>Pipeline controller\<close>























subsection \<open>Artifact file names\<close>








end
